theory Spec2Isabelle
  imports Complex_Main
begin

section \<open>The voice-session component: data model\<close>

text \<open>
  The component of \<^verbatim>\<open>src/components/CompanionComponent.tsx\<close> is a React function
  component: its state lives in \<^verbatim>\<open>useState\<close> cells, its handlers are closures of one
  render, and everything it does to the outside (the voice SDK, the browser's timers,
  \<^verbatim>\<open>alert\<close>, the console, the history store) is an effect. The model is a record of the
  state cells together with the part of the browser the handlers talk to (the pending
  timers and a trace of the effects, in program order), and one function per handler.
\<close>

datatype CallStatus = INACTIVE | CONNECTING | ACTIVE | FINISHED

datatype VoiceQuality = LOW | MEDIUM | HIGH

text \<open>The object built in \<^verbatim>\<open>onMessage\<close> and stored in both message lists.\<close>

record SavedMessage =
  role :: string
  content :: string
  timestamp :: string

record UserPreferences =
  voiceQuality :: VoiceQuality
  noiseReduction :: bool
  echoCancellation :: bool

record ConversationContext =
  subject :: string
  topic :: string
  previousMessages :: "SavedMessage list"
  userPreferences :: UserPreferences

text \<open>
  The SDK's message as \<^verbatim>\<open>onMessage\<close> reads it: the fields \<^verbatim>\<open>type\<close>,
  \<^verbatim>\<open>transcriptType\<close>, \<^verbatim>\<open>role\<close> and \<^verbatim>\<open>transcript\<close>.
\<close>

record Message =
  msg_type :: string
  transcriptType :: string
  msg_role :: string
  transcript :: string

text \<open>The props the handlers read.\<close>

record Props =
  companionId :: string
  p_subject :: string
  p_topic :: string
  p_style :: string
  p_voice :: string

text \<open>
  A call into the SDK either returns or throws (a promise fulfils or rejects); what it
  does is an input of the model.
\<close>

datatype 'a outcome = Returns 'a | Throws

text \<open>
  The callbacks the component hands to \<^verbatim>\<open>setTimeout\<close>. A callback is a closure: the
  silence callback of \<^verbatim>\<open>resetVoiceActivityTimeout\<close> carries the values of
  \<^verbatim>\<open>isListening\<close> and \<^verbatim>\<open>isSpeaking\<close> of the render that created it, the retry
  callback of \<^verbatim>\<open>retryConnection\<close> carries that render's \<^verbatim>\<open>retryCount\<close>.
\<close>

datatype callback = VoiceActivityCallback bool bool | RetryCallback nat

record timer =
  timer_id :: nat
  delay :: nat
  callback :: callback

datatype effect =
    Alert string
  | Console_log string
  | Console_error string
  | PreventDefault
  | Vapi_start string string string string
  | Vapi_stop
  | Vapi_setMuted bool
  | AddToSessionHistory string

text \<open>
  The state cells, in the order of the source, then the browser's side: the timers that
  are pending, the next timer handle (handles are positive integers, so a stored handle
  is truthy), and the effects so far.
\<close>

record state =
  callStatus :: CallStatus
  isSpeaking :: bool
  isListening :: bool
  isMuted :: bool
  messages :: "SavedMessage list"
  audioLevel :: real
  connectionQuality :: string
  lastUserInput :: string
  voiceActivityTimeout :: "nat option"
  retryCount :: nat
  conversationContext :: ConversationContext
  timers :: "timer list"
  nextTimerId :: nat
  trace :: "effect list"

definition init :: "Props \<Rightarrow> state" where
  "init p =
     \<lparr> callStatus = INACTIVE, isSpeaking = False, isListening = False, isMuted = False,
       messages = [], audioLevel = 0, connectionQuality = ''good'', lastUserInput = '''',
       voiceActivityTimeout = None, retryCount = 0,
       conversationContext =
         \<lparr> subject = p_subject p, topic = p_topic p, previousMessages = [],
           userPreferences =
             \<lparr> voiceQuality = MEDIUM, noiseReduction = True, echoCancellation = True \<rparr> \<rparr>,
       timers = [], nextTimerId = 1, trace = [] \<rparr>"

section \<open>Browser primitives\<close>

definition emit :: "effect \<Rightarrow> state \<Rightarrow> state" where
  "emit e s = s\<lparr>trace := trace s @ [e]\<rparr>"

definition setTimeout :: "callback \<Rightarrow> nat \<Rightarrow> state \<Rightarrow> nat \<times> state" where
  "setTimeout cb d s =
     (nextTimerId s,
      s\<lparr>timers := timers s @ [\<lparr>timer_id = nextTimerId s, delay = d, callback = cb\<rparr>],
        nextTimerId := nextTimerId s + 1\<rparr>)"

definition clearTimeout :: "nat \<Rightarrow> state \<Rightarrow> state" where
  "clearTimeout t s = s\<lparr>timers := filter (\<lambda>x. timer_id x \<noteq> t) (timers s)\<rparr>"

section \<open>The handlers\<close>

text \<open>
  A handler runs to completion on the state of the render it closes over, and the
  component renders again before the next event is delivered. A handler therefore maps
  the state \<open>r\<close> of its render to the next state: what the source reads from a state
  variable is read from \<open>r\<close>, also after a \<^verbatim>\<open>setState\<close> of the same handler, and a
  functional update \<^verbatim>\<open>setState(prev => ...)\<close> reads the state being built.

  \<^verbatim>\<open>resetVoiceActivityTimeout\<close> is called from inside other handlers, after they have set
  state, so it takes the render \<open>r\<close> whose closure it is and the state \<open>s\<close> built so far:
  the handle it clears and the two flags its callback captures are those of \<open>r\<close>.
\<close>

definition resetVoiceActivityTimeout :: "state \<Rightarrow> state \<Rightarrow> state" where
  "resetVoiceActivityTimeout r s =
     (let s1 = (case voiceActivityTimeout r of None \<Rightarrow> s | Some t \<Rightarrow> clearTimeout t s);
          (t', s2) = setTimeout (VoiceActivityCallback (isListening r) (isSpeaking r)) 3000 s1
      in s2\<lparr>voiceActivityTimeout := Some t'\<rparr>)"

text \<open>The callback of the silence timer, with its captured flags.\<close>

definition voiceActivityCallback :: "bool \<Rightarrow> bool \<Rightarrow> state \<Rightarrow> state" where
  "voiceActivityCallback l sp s =
     (if l \<and> \<not> sp
      then emit (Console_log ''Voice activity timeout - stopped listening'')
             (s\<lparr>isListening := False\<rparr>)
      else s)"

definition toggleMicrophone :: "bool outcome \<Rightarrow> unit outcome \<Rightarrow> state \<Rightarrow> state" where
  "toggleMicrophone isMuted_reply setMuted_reply s =
     (case isMuted_reply of
        Throws \<Rightarrow> emit (Console_error ''Failed to toggle microphone:'') s
      | Returns currentMutedState \<Rightarrow>
          (let s1 = emit (Vapi_setMuted (\<not> currentMutedState)) s in
           case setMuted_reply of
             Throws \<Rightarrow> emit (Console_error ''Failed to toggle microphone:'') s1
           | Returns _ \<Rightarrow>
               emit (Console_log ''Microphone toggled:'')
                 (s1\<lparr>isMuted := \<not> currentMutedState\<rparr>)))"

text \<open>
  \<^verbatim>\<open>handleCall\<close> is asynchronous. Its first part runs at once, up to the
  \<^verbatim>\<open>await vapi.start(...)\<close>; the rest runs when the promise of the SDK settles, after
  whatever events arrived in between. The whole body is inside \<^verbatim>\<open>try\<close>, and the
  \<^verbatim>\<open>catch\<close> only logs, sets state and alerts, so the promise of \<^verbatim>\<open>handleCall\<close>
  itself always fulfils: \<open>handleCall_settled\<close> returns that outcome with the state.
  \<^verbatim>\<open>configureAssistant\<close>, of another module, is taken to return; if it threw, the
  \<^verbatim>\<open>catch\<close> would run as it does for a rejection.
\<close>

definition handleCall :: "Props \<Rightarrow> state \<Rightarrow> state" where
  "handleCall p s =
     emit (Vapi_start (p_voice p) (p_style p) (p_subject p) (p_topic p))
       (emit (Console_log ''Calling vapi.start with:'')
         (emit (Console_log ''Starting call with configuration:'')
           (s\<lparr>callStatus := CONNECTING\<rparr>)))"

definition handleCall_settled :: "unit outcome \<Rightarrow> state \<Rightarrow> unit outcome \<times> state" where
  "handleCall_settled start_reply s =
     (case start_reply of
        Returns _ \<Rightarrow> (Returns (), emit (Console_log ''vapi.start completed successfully'') s)
      | Throws \<Rightarrow>
          (Returns (),
           emit (Alert ''Failed to start conversation. Please check your connection and try again.'')
             ((emit (Console_error ''Failed to start call:'') s)\<lparr>callStatus := INACTIVE\<rparr>)))"

definition handleDisconnect :: "state \<Rightarrow> state" where
  "handleDisconnect s = emit Vapi_stop (s\<lparr>callStatus := FINISHED\<rparr>)"

definition handleDisconnect_settled :: "unit outcome \<Rightarrow> state \<Rightarrow> state" where
  "handleDisconnect_settled stop_reply s =
     (case stop_reply of
        Returns _ \<Rightarrow> emit (Console_log ''Call disconnected successfully'') s
      | Throws \<Rightarrow> emit (Console_error ''Failed to disconnect:'') s)"

text \<open>
  \<^verbatim>\<open>retryConnection\<close>: the test, the delay and the callback use the \<^verbatim>\<open>retryCount\<close> of
  the render, the counter itself is bumped by a functional update. The callback awaits
  \<^verbatim>\<open>handleCall\<close> inside its own \<^verbatim>\<open>try\<close>; \<open>retryCallback_settled\<close> is what it does
  when that promise settles.
\<close>

definition retryConnection :: "state \<Rightarrow> state" where
  "retryConnection r =
     (if retryCount r < 3
      then
        (let s1 = emit (Console_log ''Retrying connection... Attempt'')
                    (r\<lparr>retryCount := retryCount r + 1\<rparr>)
         in snd (setTimeout (RetryCallback (retryCount r)) (1000 * retryCount r) s1))
      else r)"

definition retryCallback_settled :: "nat \<Rightarrow> unit outcome \<Rightarrow> state \<Rightarrow> state" where
  "retryCallback_settled n start_reply s =
     (case handleCall_settled start_reply s of
        (Returns _, s') \<Rightarrow> s'
      | (Throws, s') \<Rightarrow>
          (let s1 = emit (Console_error ''Retry failed:'') s' in
           if n \<ge> 2
           then (emit (Alert ''Connection failed after 3 attempts. Please check your internet connection and try again.'') s1)
                  \<lparr>callStatus := INACTIVE\<rparr>
           else s1))"

subsection \<open>The SDK's events\<close>

definition onCallStart :: "state \<Rightarrow> state" where
  "onCallStart s =
     emit (Console_log ''Call started successfully'')
       (s\<lparr>callStatus := ACTIVE, retryCount := 0, connectionQuality := ''good''\<rparr>)"

definition onCallEnd :: "Props \<Rightarrow> state \<Rightarrow> state" where
  "onCallEnd p r =
     (let s1 = r\<lparr>callStatus := FINISHED, isListening := False, isSpeaking := False,
                 audioLevel := 0\<rparr>;
          s2 = (case voiceActivityTimeout r of None \<Rightarrow> s1 | Some t \<Rightarrow> clearTimeout t s1)
      in emit (Console_log ''Call ended'') (emit (AddToSessionHistory (companionId p)) s2))"

definition newMessage :: "Message \<Rightarrow> string \<Rightarrow> SavedMessage" where
  "newMessage m now = \<lparr>role = msg_role m, content = transcript m, timestamp = now\<rparr>"

text \<open>
  \<open>now\<close> is what \<^verbatim>\<open>new Date().toISOString()\<close> returns when the message is handled.
  \<^verbatim>\<open>slice(0, 10)\<close> is \<open>take 10\<close>.
\<close>

definition onMessage :: "Message \<Rightarrow> string \<Rightarrow> state \<Rightarrow> state" where
  "onMessage m now r =
     (let s0 = emit (Console_log ''Message received:'') r in
      if msg_type m = ''transcript'' then
        if transcriptType m = ''partial'' then
          resetVoiceActivityTimeout r (s0\<lparr>lastUserInput := transcript m\<rparr>)
        else if transcriptType m = ''final'' then
          s0\<lparr>messages := newMessage m now # messages s0,
             conversationContext :=
               (conversationContext s0)
                 \<lparr>previousMessages :=
                    take 10 (newMessage m now # previousMessages (conversationContext s0))\<rparr>,
             lastUserInput := ''''\<rparr>
        else s0
      else s0)"

definition onSpeechStart :: "state \<Rightarrow> state" where
  "onSpeechStart r =
     (let s1 = r\<lparr>isSpeaking := True, isListening := False\<rparr>;
          s2 = (case voiceActivityTimeout r of None \<Rightarrow> s1 | Some t \<Rightarrow> clearTimeout t s1)
      in emit (Console_log ''AI started speaking'') s2)"

definition onSpeechEnd :: "state \<Rightarrow> state" where
  "onSpeechEnd s = emit (Console_log ''AI finished speaking'') (s\<lparr>isSpeaking := False\<rparr>)"

definition onTranscriptStart :: "state \<Rightarrow> state" where
  "onTranscriptStart r =
     emit (Console_log ''Started listening to user'')
       (resetVoiceActivityTimeout r (r\<lparr>isListening := True\<rparr>))"

definition onTranscriptEnd :: "state \<Rightarrow> state" where
  "onTranscriptEnd s =
     emit (Console_log ''Stopped listening to user'') (s\<lparr>isListening := False\<rparr>)"

definition onVolumeLevel :: "real \<Rightarrow> state \<Rightarrow> state" where
  "onVolumeLevel volume s = s\<lparr>audioLevel := volume\<rparr>"

definition onConnectionQualityChange :: "string \<Rightarrow> state \<Rightarrow> state" where
  "onConnectionQualityChange quality s =
     emit (Console_log ''Connection quality changed:'') (s\<lparr>connectionQuality := quality\<rparr>)"

subsection \<open>The keyboard and the preferences panel\<close>

text \<open>
  \<^verbatim>\<open>handleKeyPress\<close> gets the key, the control modifier and, for the case that it
  reaches \<^verbatim>\<open>toggleMicrophone\<close>, the SDK's two replies.
\<close>

definition handleKeyPress ::
    "Props \<Rightarrow> string \<Rightarrow> bool \<Rightarrow> bool outcome \<Rightarrow> unit outcome \<Rightarrow> state \<Rightarrow> state" where
  "handleKeyPress p key ctrlKey isMuted_reply setMuted_reply s =
     (if key = '' '' \<and> ctrlKey then
        (let s1 = emit PreventDefault s in
         if callStatus s = ACTIVE then toggleMicrophone isMuted_reply setMuted_reply s1 else s1)
      else if key = ''Escape'' then
        (if callStatus s = ACTIVE then handleDisconnect s else s)
      else if key = ''Enter'' \<and> ctrlKey then
        (let s1 = emit PreventDefault s in
         if callStatus s = INACTIVE then handleCall p s1 else s1)
      else s)"

definition updateVoiceQuality :: "VoiceQuality \<Rightarrow> state \<Rightarrow> state" where
  "updateVoiceQuality quality s =
     s\<lparr>conversationContext :=
         (conversationContext s)
           \<lparr>userPreferences :=
              (userPreferences (conversationContext s))\<lparr>voiceQuality := quality\<rparr>\<rparr>\<rparr>"

definition setNoiseReduction :: "bool \<Rightarrow> state \<Rightarrow> state" where
  "setNoiseReduction checked s =
     s\<lparr>conversationContext :=
         (conversationContext s)
           \<lparr>userPreferences :=
              (userPreferences (conversationContext s))\<lparr>noiseReduction := checked\<rparr>\<rparr>\<rparr>"

definition setEchoCancellation :: "bool \<Rightarrow> state \<Rightarrow> state" where
  "setEchoCancellation checked s =
     s\<lparr>conversationContext :=
         (conversationContext s)
           \<lparr>userPreferences :=
              (userPreferences (conversationContext s))\<lparr>echoCancellation := checked\<rparr>\<rparr>\<rparr>"

section \<open>Events and their dispatch\<close>

text \<open>
  Everything that can happen to the mounted component: the user's controls, the nine SDK
  events it subscribes to, the settling of the two SDK promises it awaits, and a pending
  timer firing. A settling \<^verbatim>\<open>vapi.start\<close> says whether the call was made by the user's
  control or by the retry callback of a given captured count, since the two await it in
  different places.
\<close>

datatype origin = FromUser | FromRetry nat

datatype event =
    Click_main
  | Click_mic "bool outcome" "unit outcome"
  | Click_clear
  | Keydown string bool "bool outcome" "unit outcome"
  | Change_noiseReduction bool
  | Change_echoCancellation bool
  | Change_voiceQuality VoiceQuality
  | Call_start
  | Call_end
  | Message_event Message string
  | Speech_start
  | Speech_end
  | Transcript_start
  | Transcript_end
  | Volume_level real
  | Connection_quality_change string
  | Start_settled origin "unit outcome"
  | Stop_settled "unit outcome"
  | Timer_fired nat

text \<open>
  The dispatch follows the markup and the subscriptions: the main button runs
  \<^verbatim>\<open>handleDisconnect\<close> when the call is active and \<^verbatim>\<open>handleCall\<close> otherwise, and is
  disabled while connecting; the microphone button is disabled unless the call is active;
  the clear button exists only while there are messages; the preferences panel exists
  only while the call is inactive or finished. A timer that fires leaves the pending
  list and runs its callback; the retry callback calls \<^verbatim>\<open>handleCall\<close>.
\<close>

definition panel_visible :: "state \<Rightarrow> bool" where
  "panel_visible s = (callStatus s = INACTIVE \<or> callStatus s = FINISHED)"

fun step :: "Props \<Rightarrow> event \<Rightarrow> state \<Rightarrow> state" where
  "step p Click_main s =
     (if callStatus s = CONNECTING then s
      else if callStatus s = ACTIVE then handleDisconnect s
      else handleCall p s)"
| "step p (Click_mic im sm) s =
     (if callStatus s = ACTIVE then toggleMicrophone im sm s else s)"
| "step p Click_clear s =
     (if length (messages s) > 0 then s\<lparr>messages := []\<rparr> else s)"
| "step p (Keydown key ctrlKey im sm) s = handleKeyPress p key ctrlKey im sm s"
| "step p (Change_noiseReduction b) s =
     (if panel_visible s then setNoiseReduction b s else s)"
| "step p (Change_echoCancellation b) s =
     (if panel_visible s then setEchoCancellation b s else s)"
| "step p (Change_voiceQuality q) s =
     (if panel_visible s then updateVoiceQuality q s else s)"
| "step p Call_start s = onCallStart s"
| "step p Call_end s = onCallEnd p s"
| "step p (Message_event m now) s = onMessage m now s"
| "step p Speech_start s = onSpeechStart s"
| "step p Speech_end s = onSpeechEnd s"
| "step p Transcript_start s = onTranscriptStart s"
| "step p Transcript_end s = onTranscriptEnd s"
| "step p (Volume_level v) s = onVolumeLevel v s"
| "step p (Connection_quality_change q) s = onConnectionQualityChange q s"
| "step p (Start_settled FromUser reply) s = snd (handleCall_settled reply s)"
| "step p (Start_settled (FromRetry n) reply) s = retryCallback_settled n reply s"
| "step p (Stop_settled reply) s = handleDisconnect_settled reply s"
| "step p (Timer_fired t) s =
     (case find (\<lambda>x. timer_id x = t) (timers s) of
        None \<Rightarrow> s
      | Some x \<Rightarrow>
          (let s1 = clearTimeout t s in
           case callback x of
             VoiceActivityCallback l sp \<Rightarrow> voiceActivityCallback l sp s1
           | RetryCallback n \<Rightarrow> handleCall p s1))"

fun run :: "Props \<Rightarrow> event list \<Rightarrow> state \<Rightarrow> state" where
  "run p [] s = s"
| "run p (e # es) s = run p es (step p e s)"

text \<open>
  What the statements below need besides the code: the transcript events of a list of
  messages with their clock readings, the two kinds of transcript message, the history
  calls in a trace, the silence callbacks, and fixed inputs for the examples.
\<close>

definition is_final :: "Message \<Rightarrow> bool" where
  "is_final m = (msg_type m = ''transcript'' \<and> transcriptType m = ''final'')"

definition is_partial :: "Message \<Rightarrow> bool" where
  "is_partial m = (msg_type m = ''transcript'' \<and> transcriptType m = ''partial'')"

definition transcript_events :: "(Message \<times> string) list \<Rightarrow> event list" where
  "transcript_events ms = map (\<lambda>(m, now). Message_event m now) ms"

definition finals :: "(Message \<times> string) list \<Rightarrow> SavedMessage list" where
  "finals ms = map (\<lambda>(m, now). newMessage m now) (filter (\<lambda>(m, now). is_final m) ms)"

fun history_calls :: "effect list \<Rightarrow> string list" where
  "history_calls [] = []"
| "history_calls (AddToSessionHistory c # es) = c # history_calls es"
| "history_calls (e # es) = history_calls es"

fun is_voice :: "callback \<Rightarrow> bool" where
  "is_voice (VoiceActivityCallback l sp) = True"
| "is_voice (RetryCallback n) = False"

fun is_start_rejection :: "event \<Rightarrow> bool" where
  "is_start_rejection (Start_settled og Throws) = True"
| "is_start_rejection e = False"

text \<open>
  The shape of the pending timers in every state the events can reach: none, or one
  silence timer of 3000 ms whose handle is the stored one.
\<close>

definition timers_ok :: "state \<Rightarrow> bool" where
  "timers_ok s =
     (case timers s of
        [] \<Rightarrow> True
      | [t] \<Rightarrow>
          voiceActivityTimeout s = Some (timer_id t) \<and> delay t = 3000 \<and> is_voice (callback t)
      | _ \<Rightarrow> False)"

abbreviation props0 :: Props where
  "props0 \<equiv>
     \<lparr>companionId = ''c1'', p_subject = ''maths'', p_topic = ''sets'', p_style = ''casual'',
      p_voice = ''female''\<rparr>"

abbreviation partial_hel :: Message where
  "partial_hel \<equiv>
     \<lparr>msg_type = ''transcript'', transcriptType = ''partial'', msg_role = ''user'',
      transcript = ''hel''\<rparr>"

abbreviation final_hello :: Message where
  "final_hello \<equiv>
     \<lparr>msg_type = ''transcript'', transcriptType = ''final'', msg_role = ''user'',
      transcript = ''hello''\<rparr>"

section \<open>General facts about the dispatch\<close>

lemmas handler_defs =
  emit_def setTimeout_def clearTimeout_def resetVoiceActivityTimeout_def
  voiceActivityCallback_def toggleMicrophone_def handleCall_def handleCall_settled_def
  handleDisconnect_def handleDisconnect_settled_def retryCallback_settled_def
  onCallStart_def onCallEnd_def onMessage_def onSpeechStart_def onSpeechEnd_def
  onTranscriptStart_def onTranscriptEnd_def onVolumeLevel_def onConnectionQualityChange_def
  handleKeyPress_def updateVoiceQuality_def setNoiseReduction_def setEchoCancellation_def
  panel_visible_def

lemmas handler_splits = outcome.splits option.splits callback.splits prod.splits

lemma run_append: "run p (xs @ ys) s = run p ys (run p xs s)"
  by (induction xs arbitrary: s) simp_all

lemma retryCount_step: "retryCount (step p e s) = (if e = Call_start then 0 else retryCount s)"
  by (cases "(p, e, s)" rule: step.cases)
     (auto simp: handler_defs Let_def split: handler_splits)

lemma history_calls_append: "history_calls (xs @ ys) = history_calls xs @ history_calls ys"
  by (induction xs rule: history_calls.induct) simp_all

lemma history_step:
  "history_calls (trace (step p e s)) =
     history_calls (trace s) @ (if e = Call_end then [companionId p] else [])"
  by (cases "(p, e, s)" rule: step.cases)
     (auto simp: handler_defs Let_def history_calls_append split: handler_splits)

lemma history_run:
  "history_calls (trace (run p es s)) =
     history_calls (trace s) @ replicate (length (filter (\<lambda>e. e = Call_end) es)) (companionId p)"
proof (induction es arbitrary: s)
  case Nil
  show ?case by simp
next
  case (Cons e es)
  show ?case
    by (simp add: Cons.IH history_step replicate_app_Cons_same)
qed

lemma timers_ok_step: "timers_ok s \<Longrightarrow> timers_ok (step p e s)"
  by (cases "(p, e, s)" rule: step.cases)
     (auto simp: timers_ok_def handler_defs Let_def
           split: handler_splits list.splits if_splits)

lemma timers_ok_run: "timers_ok s \<Longrightarrow> timers_ok (run p es s)"
  by (induction es arbitrary: s) (simp_all add: timers_ok_step)

lemma timers_ok_init: "timers_ok (init p)"
  by (simp add: timers_ok_def init_def)

lemma retryCount_run: "retryCount s = 0 \<Longrightarrow> retryCount (run p es s) = 0"
  by (induction es arbitrary: s) (simp_all add: retryCount_step)

lemma step_stays_connecting:
  "callStatus s = CONNECTING \<Longrightarrow> e \<noteq> Call_start \<Longrightarrow> e \<noteq> Call_end \<Longrightarrow>
   \<not> is_start_rejection e \<Longrightarrow> callStatus (step p e s) = CONNECTING"
  by (cases "(p, e, s)" rule: step.cases)
     (auto simp: handler_defs Let_def split: handler_splits)

lemma start_rejected:
  "step p (Start_settled og Throws) s =
     s\<lparr>callStatus := INACTIVE,
       trace := trace s @ [Console_error ''Failed to start call:'',
         Alert ''Failed to start conversation. Please check your connection and try again.'']\<rparr>"
  by (cases og) (simp_all add: handler_defs split: handler_splits)

section \<open>Call lifecycle\<close>

text \<open>
  C7: when the SDK confirms the connection (the call-start event) the phase becomes
  Active, from Connecting as from any other phase, the retry counter is reset to 0 and
  the connection-quality indicator to "good". In particular the retry counter is 0 after
  every sequence of events that ends with a call-start.
\<close>

theorem call_start_resets:
  "callStatus (step p Call_start s) = ACTIVE \<and>
   retryCount (step p Call_start s) = 0 \<and>
   connectionQuality (step p Call_start s) = ''good'' \<and>
   retryCount (run p (es @ [Call_start]) s) = 0"
  by (simp add: run_append onCallStart_def emit_def)

theorem call_start_resets_witness:
  "callStatus (run props0 [Click_main, Call_start] (init props0)) = ACTIVE \<and>
   retryCount (run props0 [Click_main, Call_start] (init props0)) = 0 \<and>
   connectionQuality (run props0 [Click_main, Call_start] (init props0)) = ''good''"
  using call_start_resets [of props0 "step props0 Click_main (init props0)" "[]"]
  by simp

text \<open>
  C6: when the SDK reports the end of the call, the phase becomes Finished from any
  state, and the handler records the session in the history store exactly once, under
  the companion's identity. Over any sequence of events from the initial state, the
  history store is called once per call-end event and never otherwise.
\<close>

theorem call_end_records_once:
  "callStatus (step p Call_end s) = FINISHED \<and>
   trace (step p Call_end s) =
     trace s @ [AddToSessionHistory (companionId p), Console_log ''Call ended''] \<and>
   history_calls (trace (run p es (init p))) =
     replicate (length (filter (\<lambda>e. e = Call_end) es)) (companionId p)"
proof -
  have "history_calls (trace (init p)) = []"
    by (simp add: init_def)
  then show ?thesis
    by (simp add: history_run onCallEnd_def emit_def clearTimeout_def Let_def
             split: option.splits)
qed

theorem call_end_records_once_witness:
  "callStatus (step props0 Call_end (init props0)) = FINISHED \<and>
   history_calls
     (trace (run props0 [Click_main, Call_start, Call_end, Click_main, Call_end] (init props0)))
     = [''c1'', ''c1'']"
  using call_end_records_once
          [of props0 "init props0" "[Click_main, Call_start, Call_end, Click_main, Call_end]"]
  by (simp add: numeral_2_eq_2)

text \<open>
  C8: disconnecting (the main button or Escape during an active call) sets the phase to
  Finished and calls the SDK's stop. When the stop call fails, the failure is written to
  the console and nothing else changes: the phase is Finished as it is on success.
\<close>

theorem disconnect_finishes_even_on_failure:
  "callStatus s = ACTIVE \<Longrightarrow>
     step p Click_main s = s\<lparr>callStatus := FINISHED, trace := trace s @ [Vapi_stop]\<rparr> \<and>
     step p (Keydown ''Escape'' c im sm) s =
       s\<lparr>callStatus := FINISHED, trace := trace s @ [Vapi_stop]\<rparr> \<and>
     step p (Stop_settled Throws) (step p Click_main s) =
       (step p Click_main s)
         \<lparr>trace := trace s @ [Vapi_stop, Console_error ''Failed to disconnect:'']\<rparr> \<and>
     callStatus (step p (Stop_settled Throws) (step p Click_main s)) = FINISHED \<and>
     callStatus (step p (Stop_settled (Returns ())) (step p Click_main s)) = FINISHED"
  by (simp add: handleDisconnect_def handleDisconnect_settled_def handleKeyPress_def emit_def)

theorem disconnect_finishes_even_on_failure_witness:
  "callStatus (run props0 [Click_main, Call_start] (init props0)) = ACTIVE \<and>
   callStatus (run props0 [Click_main, Call_start, Click_main, Stop_settled Throws] (init props0))
     = FINISHED"
  using disconnect_finishes_even_on_failure
          [of "run props0 [Click_main, Call_start] (init props0)" props0]
  by (simp add: handler_defs init_def)

section \<open>The controls\<close>

text \<open>
  C9: in every phase other than Active the mute control does nothing. The microphone
  button is disabled, so a click leaves the whole state as it is; Ctrl+Space only
  suppresses the browser's default action for the key. In both cases the mute flag and
  every other state cell are unchanged and the SDK's setMuted is not called.
\<close>

theorem mute_is_noop_unless_active:
  "callStatus s \<noteq> ACTIVE \<Longrightarrow>
     step p (Click_mic im sm) s = s \<and>
     step p (Keydown '' '' True im sm) s = s\<lparr>trace := trace s @ [PreventDefault]\<rparr>"
  by (simp add: handleKeyPress_def emit_def)

theorem mute_is_noop_unless_active_witness:
  "callStatus (init props0) \<noteq> ACTIVE \<and>
   step props0 (Click_mic (Returns False) (Returns ())) (init props0) = init props0 \<and>
   isMuted (step props0 (Keydown '' '' True (Returns False) (Returns ())) (init props0)) = False"
  using mute_is_noop_unless_active [of "init props0" props0 "Returns False" "Returns ()"]
  by (simp add: init_def)

text \<open>
  C10: the clear button empties the visible message list and changes nothing else: the
  context window, the in-flight utterance, the phase, the mute flag and the preferences
  are what they were.
\<close>

theorem clear_empties_only_the_message_list:
  "step p Click_clear s = s\<lparr>messages := []\<rparr> \<and>
   messages (step p Click_clear s) = [] \<and>
   previousMessages (conversationContext (step p Click_clear s)) =
     previousMessages (conversationContext s) \<and>
   userPreferences (conversationContext (step p Click_clear s)) =
     userPreferences (conversationContext s) \<and>
   lastUserInput (step p Click_clear s) = lastUserInput s \<and>
   callStatus (step p Click_clear s) = callStatus s \<and>
   isMuted (step p Click_clear s) = isMuted s"
  by simp

theorem clear_empties_only_the_message_list_witness:
  "messages (run props0 [Message_event final_hello ''t1'', Click_clear] (init props0)) = [] \<and>
   previousMessages
     (conversationContext
        (run props0 [Message_event final_hello ''t1'', Click_clear] (init props0)))
     = [newMessage final_hello ''t1'']"
  using clear_empties_only_the_message_list
          [of props0 "step props0 (Message_event final_hello ''t1'') (init props0)"]
  by (simp add: onMessage_def emit_def init_def)

section \<open>The transcript\<close>

lemma finals_Nil: "finals [] = []"
  by (simp add: finals_def)

lemma finals_Cons:
  "finals ((m, now) # ms) = (if is_final m then newMessage m now # finals ms else finals ms)"
  by (simp add: finals_def)

lemma messages_onMessage:
  "messages (onMessage m now s) =
     (if is_final m then newMessage m now # messages s else messages s)"
  by (simp add: handler_defs is_final_def Let_def split: handler_splits)

lemma previous_onMessage:
  "previousMessages (conversationContext (onMessage m now s)) =
     (if is_final m then take 10 (newMessage m now # previousMessages (conversationContext s))
      else previousMessages (conversationContext s))"
  by (simp add: handler_defs is_final_def Let_def split: handler_splits)

lemma messages_transcripts:
  "messages (run p (transcript_events ms) s) = rev (finals ms) @ messages s"
  by (induction ms arbitrary: s)
     (auto simp: transcript_events_def messages_onMessage finals_Cons finals_Nil)

lemma take_append_take: "take n (xs @ take n ys) = take n (xs @ ys)"
  by (simp add: min_def)

lemma previous_onMessage_le:
  "length (previousMessages (conversationContext s)) \<le> 10 \<Longrightarrow>
   length (previousMessages (conversationContext (onMessage m now s))) \<le> 10"
  by (simp add: previous_onMessage)

lemma previous_step_le:
  "length (previousMessages (conversationContext s)) \<le> 10 \<Longrightarrow>
   length (previousMessages (conversationContext (step p e s))) \<le> 10"
  by (cases "(p, e, s)" rule: step.cases)
     (auto simp: handler_defs Let_def split: handler_splits)

lemma previous_run_le:
  "length (previousMessages (conversationContext s)) \<le> 10 \<Longrightarrow>
   length (previousMessages (conversationContext (run p es s))) \<le> 10"
  by (induction es arbitrary: s) (simp_all add: previous_step_le)

lemma previous_transcripts:
  "length (previousMessages (conversationContext s)) \<le> 10 \<Longrightarrow>
   previousMessages (conversationContext (run p (transcript_events ms) s)) =
     take 10 (rev (finals ms) @ previousMessages (conversationContext s))"
proof (induction ms arbitrary: s)
  case Nil
  then show ?case by (simp add: transcript_events_def finals_Nil)
next
  case (Cons a ms)
  obtain m now where a: "a = (m, now)" by (cases a)
  have r: "run p (transcript_events (a # ms)) s = run p (transcript_events ms) (onMessage m now s)"
    by (simp add: a transcript_events_def)
  have le: "length (previousMessages (conversationContext (onMessage m now s))) \<le> 10"
    using Cons.prems by (rule previous_onMessage_le)
  have "previousMessages (conversationContext (run p (transcript_events (a # ms)) s)) =
          take 10 (rev (finals ms) @ previousMessages (conversationContext (onMessage m now s)))"
    unfolding r by (rule Cons.IH [OF le])
  also have "\<dots> = take 10 (rev (finals (a # ms)) @ previousMessages (conversationContext s))"
  proof (cases "is_final m")
    case True
    have "take 10 (rev (finals ms) @
            take 10 (newMessage m now # previousMessages (conversationContext s))) =
          take 10 (rev (finals ms) @ newMessage m now # previousMessages (conversationContext s))"
      by (rule take_append_take)
    with True show ?thesis
      by (simp add: previous_onMessage a finals_Cons)
  next
    case False
    then show ?thesis
      by (simp add: previous_onMessage a finals_Cons)
  qed
  finally show ?case .
qed

lemma finals_explicit:
  "finals ms =
     map (\<lambda>(m, now). \<lparr>role = msg_role m, content = transcript m, timestamp = now\<rparr>)
       (filter (\<lambda>(m, now). msg_type m = ''transcript'' \<and> transcriptType m = ''final'') ms)"
  by (simp add: finals_def newMessage_def is_final_def)

text \<open>
  C2: a final transcript event puts exactly one new message at the front of the message
  list, made of the event's role, its transcript as content and the clock's ISO
  timestamp, and clears the in-flight utterance; a partial transcript event leaves the
  list as it is. So after any sequence of transcript events the list holds the messages
  of the final events, in this form, newest first, and from the initial state its length
  is the number of final events received.
\<close>

theorem final_transcripts_accumulate:
  "messages (step p (Message_event m now) s) =
     (if msg_type m = ''transcript'' \<and> transcriptType m = ''final''
      then \<lparr>role = msg_role m, content = transcript m, timestamp = now\<rparr> # messages s
      else messages s) \<and>
   (msg_type m = ''transcript'' \<and> transcriptType m = ''final'' \<longrightarrow>
      lastUserInput (step p (Message_event m now) s) = '''') \<and>
   (msg_type m = ''transcript'' \<and> transcriptType m = ''partial'' \<longrightarrow>
      messages (step p (Message_event m now) s) = messages s) \<and>
   messages (run p (map (\<lambda>(m, now). Message_event m now) ms) s) =
     rev (map (\<lambda>(m, now). \<lparr>role = msg_role m, content = transcript m, timestamp = now\<rparr>)
            (filter (\<lambda>(m, now). msg_type m = ''transcript'' \<and> transcriptType m = ''final'') ms))
     @ messages s \<and>
   messages (run p (map (\<lambda>(m, now). Message_event m now) ms) (init p)) =
     rev (map (\<lambda>(m, now). \<lparr>role = msg_role m, content = transcript m, timestamp = now\<rparr>)
            (filter (\<lambda>(m, now). msg_type m = ''transcript'' \<and> transcriptType m = ''final'') ms)) \<and>
   length (messages (run p (map (\<lambda>(m, now). Message_event m now) ms) (init p))) =
     length (filter (\<lambda>(m, now). msg_type m = ''transcript'' \<and> transcriptType m = ''final'') ms)"
proof -
  have one: "messages (onMessage m now s) =
     (if msg_type m = ''transcript'' \<and> transcriptType m = ''final''
      then \<lparr>role = msg_role m, content = transcript m, timestamp = now\<rparr> # messages s
      else messages s)"
    by (simp add: messages_onMessage is_final_def newMessage_def)
  have cleared: "msg_type m = ''transcript'' \<and> transcriptType m = ''final'' \<longrightarrow>
      lastUserInput (onMessage m now s) = ''''"
    by (simp add: handler_defs Let_def)
  have many: "messages (run p (map (\<lambda>(m, now). Message_event m now) ms) s) =
     rev (map (\<lambda>(m, now). \<lparr>role = msg_role m, content = transcript m, timestamp = now\<rparr>)
            (filter (\<lambda>(m, now). msg_type m = ''transcript'' \<and> transcriptType m = ''final'') ms))
     @ messages s" for s
    using messages_transcripts [of p ms s]
    by (simp add: transcript_events_def finals_explicit)
  have start: "messages (init p) = []"
    by (simp add: init_def)
  show ?thesis
    using one cleared many [of s] many [of "init p"] start
    by simp
qed

theorem final_transcripts_accumulate_witness:
  "messages
     (run props0 [Message_event partial_hel ''t0'', Message_event final_hello ''t1'',
                  Message_event partial_hel ''t2'',
                  Message_event
                    \<lparr>msg_type = ''transcript'', transcriptType = ''final'',
                     msg_role = ''assistant'', transcript = ''hi there''\<rparr> ''t3'']
        (run props0 [Click_main, Call_start, Transcript_start] (init props0)))
     = [\<lparr>role = ''assistant'', content = ''hi there'', timestamp = ''t3''\<rparr>,
        \<lparr>role = ''user'', content = ''hello'', timestamp = ''t1''\<rparr>] \<and>
   lastUserInput
     (run props0 [Message_event partial_hel ''t0'', Message_event final_hello ''t1'']
        (run props0 [Click_main, Call_start, Transcript_start] (init props0)))
     = ''''"
  using final_transcripts_accumulate
          [where p = props0 and m = final_hello and now = "''t1''"
             and ms = "[(partial_hel, ''t0''), (final_hello, ''t1''), (partial_hel, ''t2''),
                        (\<lparr>msg_type = ''transcript'', transcriptType = ''final'',
                          msg_role = ''assistant'', transcript = ''hi there''\<rparr>, ''t3'')]"
             and s = "run props0 [Click_main, Call_start, Transcript_start] (init props0)"]
  by (simp add: handler_defs init_def Let_def)

text \<open>
  C3: the context window never holds more than 10 messages, whatever events arrive. A
  final transcript event puts its message at the front of the window and keeps the first
  10, so after any sequence of transcript events the window holds the most recent final
  messages, at most 10 of them, newest first.
\<close>

theorem context_window_bounded:
  "length (previousMessages (conversationContext (run p es (init p)))) \<le> 10 \<and>
   (is_final m \<longrightarrow>
      previousMessages (conversationContext (step p (Message_event m now) s)) =
        take 10 (newMessage m now # previousMessages (conversationContext s))) \<and>
   previousMessages (conversationContext (run p (transcript_events ms) (init p))) =
     take 10 (rev (finals ms))"
proof -
  have le: "length (previousMessages (conversationContext (init p))) \<le> 10"
    by (simp add: init_def)
  have "previousMessages (conversationContext (init p)) = []"
    by (simp add: init_def)
  with previous_transcripts [OF le, of p ms] previous_run_le [OF le, of p es]
  show ?thesis
    by (simp add: previous_onMessage)
qed

theorem context_window_bounded_witness:
  "is_final final_hello \<and>
   previousMessages
     (conversationContext
        (run props0
           (transcript_events
              [(final_hello, ''t01''), (final_hello, ''t02''), (final_hello, ''t03''),
               (final_hello, ''t04''), (final_hello, ''t05''), (final_hello, ''t06''),
               (final_hello, ''t07''), (final_hello, ''t08''), (final_hello, ''t09''),
               (final_hello, ''t10''), (final_hello, ''t11'')])
           (init props0)))
     = map (newMessage final_hello)
         [''t11'', ''t10'', ''t09'', ''t08'', ''t07'', ''t06'', ''t05'', ''t04'', ''t03'', ''t02'']"
  using context_window_bounded
          [where p = props0 and m = final_hello
             and ms = "[(final_hello, ''t01''), (final_hello, ''t02''), (final_hello, ''t03''),
               (final_hello, ''t04''), (final_hello, ''t05''), (final_hello, ''t06''),
               (final_hello, ''t07''), (final_hello, ''t08''), (final_hello, ''t09''),
               (final_hello, ''t10''), (final_hello, ''t11'')]"]
  by (simp add: finals_def is_final_def)


section \<open>Starting a session\<close>

text \<open>
  C4: starting a session from Inactive or Finished (the main button; Ctrl+Enter from
  Inactive) sets the phase to Connecting at once and calls the SDK's start. While the
  phase is Connecting, no event other than the SDK's call-start (to Active), its call-end
  (to Finished) and the rejection of the start call changes it. When the start call
  rejects, the component alerts the user and the phase goes back to Inactive.
\<close>

theorem start_connects_then_only_sdk_moves_on:
  "(callStatus s = INACTIVE \<or> callStatus s = FINISHED \<longrightarrow>
      callStatus (step p Click_main s) = CONNECTING \<and>
      trace (step p Click_main s) =
        trace s @ [Console_log ''Starting call with configuration:'',
                   Console_log ''Calling vapi.start with:'',
                   Vapi_start (p_voice p) (p_style p) (p_subject p) (p_topic p)]) \<and>
   (callStatus s = INACTIVE \<longrightarrow>
      callStatus (step p (Keydown ''Enter'' True im sm) s) = CONNECTING) \<and>
   (callStatus s = CONNECTING \<and> e \<noteq> Call_start \<and> e \<noteq> Call_end \<and> \<not> is_start_rejection e \<longrightarrow>
      callStatus (step p e s) = CONNECTING) \<and>
   callStatus (step p Call_start s) = ACTIVE \<and>
   callStatus (step p Call_end s) = FINISHED \<and>
   callStatus (step p (Start_settled og Throws) s) = INACTIVE \<and>
   trace (step p (Start_settled og Throws) s) =
     trace s @ [Console_error ''Failed to start call:'',
       Alert ''Failed to start conversation. Please check your connection and try again.'']"
proof -
  have "callStatus s = CONNECTING \<and> e \<noteq> Call_start \<and> e \<noteq> Call_end \<and> \<not> is_start_rejection e \<longrightarrow>
          callStatus (step p e s) = CONNECTING"
    by (simp add: step_stays_connecting)
  moreover have "callStatus (step p Call_end s) = FINISHED"
    by (simp add: onCallEnd_def emit_def clearTimeout_def Let_def split: option.splits)
  moreover have "callStatus (step p Call_start s) = ACTIVE"
    by (simp add: onCallStart_def emit_def)
  moreover have "callStatus s = INACTIVE \<longrightarrow>
                   callStatus (step p (Keydown ''Enter'' True im sm) s) = CONNECTING"
    by (simp add: handleKeyPress_def handleCall_def emit_def)
  ultimately show ?thesis
    by (simp add: start_rejected handleCall_def emit_def)
qed

theorem start_connects_then_only_sdk_moves_on_witness:
  "callStatus (init props0) = INACTIVE \<and>
   callStatus (step props0 Click_main (init props0)) = CONNECTING \<and>
   callStatus (run props0 [Click_main, Click_main] (init props0)) = CONNECTING \<and>
   callStatus (run props0 [Click_main, Start_settled FromUser Throws] (init props0)) = INACTIVE"
  using start_connects_then_only_sdk_moves_on
          [where p = props0 and s = "init props0"]
        start_connects_then_only_sdk_moves_on
          [where p = props0 and s = "step props0 Click_main (init props0)" and e = Click_main
             and og = FromUser]
  by (simp add: init_def)

section \<open>The silence timer\<close>

text \<open>
  C5: the silence timer is to be armed for 3000 ms when user speech capture starts or a
  partial transcript arrives, to replace any pending timer, and to force listening to
  false when it fires without having been re-armed or cancelled. The code arms it for
  3000 ms, but misses the rest. From the initial state the start of user speech capture
  sets listening and arms timer 1, whose callback holds the flags of the render that
  armed it, in which the component was not yet listening; nothing re-arms or cancels
  the timer, the assistant is not speaking, the timer fires, and the component is still
  listening. The handle that arming clears is likewise the one of the arming render, so
  two armings out of one render leave two timers pending.
\<close>

theorem silence_timer_leaves_listening_set:
  "timers (run props0 [Transcript_start] (init props0)) =
     [\<lparr>timer_id = 1, delay = 3000, callback = VoiceActivityCallback False False\<rparr>] \<and>
   isListening (run props0 [Transcript_start] (init props0)) \<and>
   \<not> isSpeaking (run props0 [Transcript_start] (init props0)) \<and>
   timers (run props0 [Transcript_start, Timer_fired 1] (init props0)) = [] \<and>
   isListening (run props0 [Transcript_start, Timer_fired 1] (init props0)) \<and>
   timers (resetVoiceActivityTimeout (init props0)
             (resetVoiceActivityTimeout (init props0) (init props0))) =
     [\<lparr>timer_id = 1, delay = 3000, callback = VoiceActivityCallback False False\<rparr>,
      \<lparr>timer_id = 2, delay = 3000, callback = VoiceActivityCallback False False\<rparr>]"
  by (simp add: handler_defs init_def Let_def)

section \<open>The retry logic\<close>

lemma retry_fixpoint: "\<not> retryCount s < 3 \<Longrightarrow> (retryConnection ^^ k) s = s"
  by (induction k) (simp_all add: retryConnection_def)

lemma retry_three_times:
  "map delay (timers ((retryConnection ^^ 3) (init p))) = [0, 1000, 2000] \<and>
   retryCount ((retryConnection ^^ 3) (init p)) = 3"
  by (simp add: numeral_3_eq_3 retryConnection_def init_def setTimeout_def emit_def Let_def)

lemma retry_delays:
  "map delay (timers ((retryConnection ^^ (k + 3)) (init p))) = [0, 1000, 2000]"
  using retry_three_times [of p] retry_fixpoint [of "(retryConnection ^^ 3) (init p)" k]
  by (simp add: funpow_add)

lemma no_retry_timer:
  "list_all (\<lambda>t. is_voice (callback t)) (timers (run p es (init p)))"
proof -
  have "timers_ok (run p es (init p))"
    by (simp add: timers_ok_run timers_ok_init)
  then show ?thesis
    by (auto simp: timers_ok_def split: list.splits)
qed

text \<open>
  C1, as the code has it: a failed start is not retried. When the start call rejects,
  \<^verbatim>\<open>handleCall\<close> itself alerts the user and sets the phase to Inactive, every time, and
  neither the retry counter nor the timers change; the retry callback handles a settled
  start exactly as the button does. No event calls \<^verbatim>\<open>retryConnection\<close>: over every
  sequence of events the retry counter stays 0 and no retry timer is ever pending.
  \<^verbatim>\<open>retryConnection\<close> itself, called at a retry count \<open>n < 3\<close>, increments the counter
  and schedules a start after \<open>1000 * n\<close> ms, and does nothing at \<open>n \<ge> 3\<close>; so
  successive calls from count 0, each on the state left by the one before, schedule
  starts at 0 ms, 1000 ms and 2000 ms and no fourth, and a retry timer that fires runs
  \<^verbatim>\<open>handleCall\<close>.
\<close>

theorem start_failure_is_not_retried:
  "step p (Start_settled og Throws) s =
     s\<lparr>callStatus := INACTIVE,
       trace := trace s @ [Console_error ''Failed to start call:'',
         Alert ''Failed to start conversation. Please check your connection and try again.'']\<rparr> \<and>
   step p (Start_settled (FromRetry n) reply) s = step p (Start_settled FromUser reply) s \<and>
   retryCount (run p es (init p)) = 0 \<and>
   list_all (\<lambda>t. is_voice (callback t)) (timers (run p es (init p))) \<and>
   retryConnection r =
     (if retryCount r < 3
      then r\<lparr>retryCount := retryCount r + 1,
             timers := timers r @
               [\<lparr>timer_id = nextTimerId r, delay = 1000 * retryCount r,
                 callback = RetryCallback (retryCount r)\<rparr>],
             nextTimerId := nextTimerId r + 1,
             trace := trace r @ [Console_log ''Retrying connection... Attempt'']\<rparr>
      else r) \<and>
   map delay (timers ((retryConnection ^^ (k + 3)) (init p))) = [0, 1000, 2000] \<and>
   (find (\<lambda>x. timer_id x = i) (timers s) = Some t \<and> callback t = RetryCallback n \<longrightarrow>
      step p (Timer_fired i) s = handleCall p (clearTimeout i s))"
proof -
  have "step p (Start_settled (FromRetry n) reply) s = step p (Start_settled FromUser reply) s"
    by (simp add: handler_defs split: handler_splits)
  moreover have "retryCount (run p es (init p)) = 0"
    by (simp add: retryCount_run init_def)
  moreover have "retryConnection r =
     (if retryCount r < 3
      then r\<lparr>retryCount := retryCount r + 1,
             timers := timers r @
               [\<lparr>timer_id = nextTimerId r, delay = 1000 * retryCount r,
                 callback = RetryCallback (retryCount r)\<rparr>],
             nextTimerId := nextTimerId r + 1,
             trace := trace r @ [Console_log ''Retrying connection... Attempt'']\<rparr>
      else r)"
    by (simp add: retryConnection_def setTimeout_def emit_def Let_def)
  moreover have "find (\<lambda>x. timer_id x = i) (timers s) = Some t \<and> callback t = RetryCallback n \<longrightarrow>
      step p (Timer_fired i) s = handleCall p (clearTimeout i s)"
    by (simp add: Let_def)
  ultimately show ?thesis
    using start_rejected [of p og s] no_retry_timer [of p es] retry_delays [of k p]
    by blast
qed

theorem start_failure_is_not_retried_witness:
  "callStatus (run props0 [Click_main, Start_settled FromUser Throws] (init props0)) = INACTIVE \<and>
   retryCount (run props0 [Click_main, Start_settled FromUser Throws] (init props0)) = 0 \<and>
   retryCount (retryConnection (init props0)) = 1 \<and>
   map delay (timers ((retryConnection ^^ 4) (init props0))) = [0, 1000, 2000] \<and>
   callStatus (step props0 (Timer_fired 1) (retryConnection (init props0))) = CONNECTING"
  using start_failure_is_not_retried
          [where p = props0 and og = FromUser and s = "step props0 Click_main (init props0)"
             and es = "[Click_main, Start_settled FromUser Throws]" and r = "init props0"
             and k = 1]
        start_failure_is_not_retried
          [where p = props0 and s = "retryConnection (init props0)" and i = 1 and n = 0
             and t = "\<lparr>timer_id = 1, delay = 0, callback = RetryCallback 0\<rparr>"]
  by (simp add: handler_defs init_def retryConnection_def Let_def)

text \<open>
  The claim C1 as the specification words it fails: after the first failed start the
  user has already been alerted, the retry counter is still 0, no timer is pending and
  the SDK's start has been called once, so nothing will call it again.
\<close>

theorem failed_start_schedules_no_retry:
  "retryCount (run props0 [Click_main, Start_settled FromUser Throws] (init props0)) = 0 \<and>
   timers (run props0 [Click_main, Start_settled FromUser Throws] (init props0)) = [] \<and>
   callStatus (run props0 [Click_main, Start_settled FromUser Throws] (init props0)) = INACTIVE \<and>
   trace (run props0 [Click_main, Start_settled FromUser Throws] (init props0)) =
     [Console_log ''Starting call with configuration:'', Console_log ''Calling vapi.start with:'',
      Vapi_start ''female'' ''casual'' ''maths'' ''sets'',
      Console_error ''Failed to start call:'',
      Alert ''Failed to start conversation. Please check your connection and try again.'']"
  by (simp add: handler_defs init_def)


end
